theory Spec2Isabelle
  imports Main
begin

section \<open>Data model\<close>

text \<open>
  \<^verbatim>\<open>src/lib/models/personal-model.ts\<close> declares \<^verbatim>\<open>Personal\<close>; the sibling
  model declares \<^verbatim>\<open>Persona\<close>, the same interface without \<^verbatim>\<open>personality\<close>.
  \<^verbatim>\<open>Persona\<close> is the base record and \<^verbatim>\<open>Personal\<close> extends it, so one function over
  the record scheme stands for both of the textually parallel modules of
  \<^verbatim>\<open>personal-operation.ts\<close>. The field \<^verbatim>\<open>id\<close> is written \<open>id_of\<close> (\<open>id\<close> is
  the identity function of HOL). Optional \<^verbatim>\<open>avatar\<close> is an option.
\<close>

record persona =
  id_of :: string
  name :: string
  description :: string
  avatar :: "string option"
  isDefault :: bool
  createdAt :: string
  updatedAt :: string

record personal = persona +
  personality :: string

text \<open>
  \<^verbatim>\<open>PersonalSettings\<close> (resp. \<^verbatim>\<open>PersonaSettings\<close>, the same with the other
  names): a nullable default id and a \<^verbatim>\<open>Record<string, string>\<close> from character
  ids to entity ids. The field holds the own keys of the stored object, each with its
  string value; what a read or a write by key does with them, and with the members the
  object inherits, is \<open>getProperty\<close> and \<open>setProperty\<close> below.
\<close>

record personalSettings =
  defaultPersonalId :: "string option"
  characterPersonalMap :: "string \<rightharpoonup> string"

text \<open>
  The two persisted collections of one entity kind, as \<^verbatim>\<open>readData\<close> returns
  them and \<^verbatim>\<open>writeData\<close> replaces them (each read yields fresh objects, so nothing
  is shared between the store and a caller), and the number of clock readings taken
  so far. The clock itself is a parameter of the operations: its \<open>k\<close>-th reading is
  what the \<open>k\<close>-th \<^verbatim>\<open>new Date().toISOString()\<close> returns.
\<close>

type_synonym clock = "nat \<Rightarrow> string"

record 'e world =
  personal_file :: "'e list"
  personal_settings_file :: "personalSettings list"
  clock_reads :: nat

section \<open>JavaScript primitives used by the operations\<close>

text \<open>\<^verbatim>\<open>Array.prototype.findIndex\<close>: the first index satisfying the predicate, or \<open>-1\<close>.\<close>

fun findIndex :: "('a \<Rightarrow> bool) \<Rightarrow> 'a list \<Rightarrow> int" where
  "findIndex P [] = -1"
| "findIndex P (x # xs) =
     (if P x then 0 else (let i = findIndex P xs in if i < 0 then -1 else i + 1))"

text \<open>Truthiness of a \<^verbatim>\<open>string | null | undefined\<close>: only a non-empty string is truthy.\<close>

fun truthy :: "string option \<Rightarrow> bool" where
  "truthy None = False"
| "truthy (Some v) = (v \<noteq> [])"


text \<open>
  The map of the settings is a plain object, so \<^verbatim>\<open>map[key]\<close> reads an own key when
  there is one and otherwise what the object inherits from \<^verbatim>\<open>Object.prototype\<close>: a
  function for each of its methods and the prototype itself for \<^verbatim>\<open>__proto__\<close>, none
  of them a string and all of them truthy. A key that is neither own nor inherited
  reads as \<^verbatim>\<open>undefined\<close>.
\<close>

datatype property = Undefined | StringValue string | PrototypeMember

definition objectPrototypeKeys :: "string list" where
  "objectPrototypeKeys =
     [''constructor'', ''hasOwnProperty'', ''isPrototypeOf'', ''propertyIsEnumerable'',
      ''toLocaleString'', ''toString'', ''valueOf'', ''__proto__'',
      ''__defineGetter__'', ''__defineSetter__'', ''__lookupGetter__'', ''__lookupSetter__'']"

definition getProperty :: "(string \<rightharpoonup> string) \<Rightarrow> string \<Rightarrow> property" where
  "getProperty m k =
     (case m k of
        Some v \<Rightarrow> StringValue v
      | None \<Rightarrow> if k \<in> set objectPrototypeKeys then PrototypeMember else Undefined)"

fun truthyProperty :: "property \<Rightarrow> bool" where
  "truthyProperty Undefined = False"
| "truthyProperty (StringValue v) = (v \<noteq> [])"
| "truthyProperty PrototypeMember = True"

text \<open>\<^verbatim>\<open>p.id === value\<close>: a string is strictly equal to an equal string only.\<close>

fun strictEquals :: "string \<Rightarrow> property \<Rightarrow> bool" where
  "strictEquals s (StringValue v) = (s = v)"
| "strictEquals s Undefined = False"
| "strictEquals s PrototypeMember = False"

text \<open>
  \<^verbatim>\<open>map[key] = value\<close> with a string value writes an own key, except that
  \<^verbatim>\<open>__proto__\<close>, when it is not an own key already, goes to the setter of the
  prototype, which ignores a string. \<^verbatim>\<open>delete map[key]\<close> removes an own key and does
  nothing else.
\<close>

definition setProperty :: "(string \<rightharpoonup> string) \<Rightarrow> string \<Rightarrow> string \<Rightarrow> (string \<rightharpoonup> string)" where
  "setProperty m k v = (if k = ''__proto__'' \<and> m k = None then m else m(k \<mapsto> v))"

definition deleteProperty :: "(string \<rightharpoonup> string) \<Rightarrow> string \<Rightarrow> (string \<rightharpoonup> string)" where
  "deleteProperty m k = m(k := None)"

section \<open>Entity operations (\<^verbatim>\<open>personal-operation.ts\<close>)\<close>

definition getAllPersonals :: "('a persona_scheme) world \<Rightarrow> 'a persona_scheme list" where
  "getAllPersonals w = personal_file w"

definition getPersonalById :: "string \<Rightarrow> ('a persona_scheme) world \<Rightarrow> 'a persona_scheme option" where
  "getPersonalById i w = find (\<lambda>p. id_of p = i) (getAllPersonals w)"

definition getDefaultPersonal :: "('a persona_scheme) world \<Rightarrow> 'a persona_scheme option" where
  "getDefaultPersonal w =
     (let personals = getAllPersonals w in
      case find isDefault personals of
        Some p \<Rightarrow> Some p
      | None \<Rightarrow> (case personals of p # _ \<Rightarrow> Some p | [] \<Rightarrow> None))"

text \<open>
  \<^verbatim>\<open>savePersonal\<close> stamps its argument, which the caller keeps, and writes the
  collection: the result is the stamped argument and the new world.
\<close>

definition savePersonal ::
  "clock \<Rightarrow> 'a persona_scheme \<Rightarrow> ('a persona_scheme) world
    \<Rightarrow> 'a persona_scheme \<times> ('a persona_scheme) world" where
  "savePersonal clk personal0 w =
     (let personals = getAllPersonals w;
          index = findIndex (\<lambda>p. id_of p = id_of personal0) personals;
          personal = personal0\<lparr>updatedAt := clk (clock_reads w)\<rparr>;
          personals1 = (if index \<ge> 0 then personals[nat index := personal]
                        else personals @ [personal]);
          personals2 = (if isDefault personal
                        then map (\<lambda>p. if id_of p \<noteq> id_of personal
                                       then p\<lparr>isDefault := False\<rparr> else p) personals1
                        else personals1)
      in (personal, w\<lparr>personal_file := personals2, clock_reads := Suc (clock_reads w)\<rparr>))"

definition getPersonalSettings :: "'e world \<Rightarrow> personalSettings" where
  "getPersonalSettings w =
     (case personal_settings_file w of
        [] \<Rightarrow> \<lparr>defaultPersonalId = None, characterPersonalMap = Map.empty\<rparr>
      | s # _ \<Rightarrow> s)"

definition savePersonalSettings :: "personalSettings \<Rightarrow> 'e world \<Rightarrow> 'e world" where
  "savePersonalSettings settings w = w\<lparr>personal_settings_file := [settings]\<rparr>"



text \<open>
  The \<^verbatim>\<open>forEach\<close> of \<^verbatim>\<open>setDefaultPersonal\<close>: every entity gets its flag from the
  comparison and a clock reading of its own.
\<close>

fun markDefault :: "clock \<Rightarrow> string \<Rightarrow> nat \<Rightarrow> 'a persona_scheme list \<Rightarrow> 'a persona_scheme list" where
  "markDefault clk i t [] = []"
| "markDefault clk i t (p # ps) =
     p\<lparr>isDefault := (id_of p = i), updatedAt := clk t\<rparr> # markDefault clk i (Suc t) ps"

definition setDefaultPersonal ::
  "clock \<Rightarrow> string \<Rightarrow> ('a persona_scheme) world \<Rightarrow> ('a persona_scheme) world" where
  "setDefaultPersonal clk i w =
     (let personals = getAllPersonals w;
          personals1 = markDefault clk i (clock_reads w) personals;
          w1 = w\<lparr>personal_file := personals1,
                 clock_reads := clock_reads w + length personals\<rparr>;
          settings = getPersonalSettings w1
      in savePersonalSettings (settings\<lparr>defaultPersonalId := Some i\<rparr>) w1)"

text \<open>
  \<^verbatim>\<open>getPersonalById\<close> as it runs on the value \<^verbatim>\<open>getPersonalForCharacter\<close> hands it,
  which the lookup in the map has produced and which need not be a string.
\<close>

definition getPersonalByIdValue ::
  "property \<Rightarrow> ('a persona_scheme) world \<Rightarrow> 'a persona_scheme option" where
  "getPersonalByIdValue v w = find (\<lambda>p. strictEquals (id_of p) v) (getAllPersonals w)"

definition getPersonalForCharacter ::
  "string \<Rightarrow> ('a persona_scheme) world \<Rightarrow> 'a persona_scheme option" where
  "getPersonalForCharacter characterId w =
     (let settings = getPersonalSettings w;
          personalId = getProperty (characterPersonalMap settings) characterId
      in if truthyProperty personalId then getPersonalByIdValue personalId w
         else getDefaultPersonal w)"

definition setPersonalForCharacter ::
  "string \<Rightarrow> string option \<Rightarrow> 'e world \<Rightarrow> 'e world" where
  "setPersonalForCharacter characterId personalId w =
     (let settings = getPersonalSettings w;
          removed = settings\<lparr>characterPersonalMap :=
                      deleteProperty (characterPersonalMap settings) characterId\<rparr>;
          settings1 = (case personalId of
                         Some pid \<Rightarrow>
                           if truthy personalId
                           then settings\<lparr>characterPersonalMap :=
                                  setProperty (characterPersonalMap settings) characterId pid\<rparr>
                           else removed
                       | None \<Rightarrow> removed)
      in savePersonalSettings settings1 w)"

text \<open>
  \<^verbatim>\<open>createEmptyPersonal\<close> builds its id from \<^verbatim>\<open>Date.now()\<close> and
  \<^verbatim>\<open>Math.random()\<close>; their renderings are parameters. It takes one clock reading.
\<close>

definition createEmptyPersonal :: "string \<Rightarrow> string \<Rightarrow> string \<Rightarrow> personal" where
  "createEmptyPersonal now millis rnd =
     \<lparr>id_of = ''personal_'' @ millis @ ''_'' @ rnd, name = '''', description = '''',
      avatar = None, isDefault = False, createdAt = now, updatedAt = now,
      personality = ''''\<rparr>"

definition createEmptyPersona :: "string \<Rightarrow> string \<Rightarrow> string \<Rightarrow> persona" where
  "createEmptyPersona now millis rnd =
     \<lparr>id_of = ''persona_'' @ millis @ ''_'' @ rnd, name = '''', description = '''',
      avatar = None, isDefault = False, createdAt = now, updatedAt = now\<rparr>"

definition createNewPersonal ::
  "clock \<Rightarrow> string \<Rightarrow> string \<Rightarrow> string \<Rightarrow> personal world \<Rightarrow> personal \<times> personal world" where
  "createNewPersonal clk millis rnd nm w =
     (let personal = createEmptyPersonal (clk (clock_reads w)) millis rnd;
          w1 = w\<lparr>clock_reads := Suc (clock_reads w)\<rparr>
      in savePersonal clk (personal\<lparr>name := nm\<rparr>) w1)"

definition createNewPersona ::
  "clock \<Rightarrow> string \<Rightarrow> string \<Rightarrow> string \<Rightarrow> persona world \<Rightarrow> persona \<times> persona world" where
  "createNewPersona clk millis rnd nm w =
     (let persona = createEmptyPersona (clk (clock_reads w)) millis rnd;
          w1 = w\<lparr>clock_reads := Suc (clock_reads w)\<rparr>
      in savePersonal clk (persona\<lparr>name := nm\<rparr>) w1)"

text \<open>
  The \<^verbatim>\<open>Persona\<close> module is the \<^verbatim>\<open>Personal\<close> module with the names changed; its
  operations are the ones above at the type \<^typ>\<open>persona\<close>.
\<close>

abbreviation (input) defaultPersonaId :: "personalSettings \<Rightarrow> string option" where
  "defaultPersonaId \<equiv> defaultPersonalId"

abbreviation (input) characterPersonaMap :: "personalSettings \<Rightarrow> (string \<rightharpoonup> string)" where
  "characterPersonaMap \<equiv> characterPersonalMap"

abbreviation (input) getPersonaById :: "string \<Rightarrow> persona world \<Rightarrow> persona option" where
  "getPersonaById \<equiv> getPersonalById"

abbreviation (input) getDefaultPersona :: "persona world \<Rightarrow> persona option" where
  "getDefaultPersona \<equiv> getDefaultPersonal"

abbreviation (input) savePersona :: "clock \<Rightarrow> persona \<Rightarrow> persona world \<Rightarrow> persona \<times> persona world" where
  "savePersona \<equiv> savePersonal"


abbreviation (input) setDefaultPersona :: "clock \<Rightarrow> string \<Rightarrow> persona world \<Rightarrow> persona world" where
  "setDefaultPersona \<equiv> setDefaultPersonal"

abbreviation (input) getPersonaForCharacter :: "string \<Rightarrow> persona world \<Rightarrow> persona option" where
  "getPersonaForCharacter \<equiv> getPersonalForCharacter"

abbreviation (input) setPersonaForCharacter :: "string \<Rightarrow> string option \<Rightarrow> persona world \<Rightarrow> persona world" where
  "setPersonaForCharacter \<equiv> setPersonalForCharacter"

section \<open>Font store (\<^verbatim>\<open>MessageFontStore.ts\<close>)\<close>

text \<open>
  What \<^verbatim>\<open>loadGoogleFont\<close> reads and writes: the \<^verbatim>\<open>loadedFonts\<close> set of the store,
  the elements of the document (\<^verbatim>\<open>appendChild\<close> puts the new one last), and whether
  \<^verbatim>\<open>window\<close> is defined.
\<close>

record element =
  elem_id :: string
  href :: string
  rel :: string

record fontEnv =
  loadedFonts :: "string set"
  document :: "element list"
  has_window :: bool

text \<open>
  The class \<^verbatim>\<open>\s\<close> on the code units a \<^typ>\<open>char\<close> holds: tab, line feed, vertical
  tab, form feed, carriage return, space and no-break space.
\<close>

definition isSpace :: "char \<Rightarrow> bool" where
  "isSpace c = (of_char c \<in> {9, 10, 11, 12, 13, 32, 160 :: nat})"

text \<open>\<^verbatim>\<open>fontName.replace(/\s+/g, "+")\<close>: every maximal run of white space becomes one plus.\<close>

function replaceSpaces :: "string \<Rightarrow> string" where
  "replaceSpaces [] = []"
| "replaceSpaces (c # cs) =
     (if isSpace c then CHR ''+'' # replaceSpaces (dropWhile isSpace cs)
      else c # replaceSpaces cs)"
  by pat_completeness auto
termination
  by (relation "measure length") (auto simp: less_Suc_eq_le length_dropWhile_le)

definition googleFontLink :: "string \<Rightarrow> element" where
  "googleFontLink fontName =
     (let formattedName = replaceSpaces fontName in
      \<lparr>elem_id = ''google-font-'' @ formattedName,
       href = ''https://fonts.googleapis.com/css2?family='' @ formattedName
              @ '':wght@400;500;600;700&display=swap'',
       rel = ''stylesheet''\<rparr>)"

definition getElementById :: "string \<Rightarrow> element list \<Rightarrow> element option" where
  "getElementById i doc = find (\<lambda>e. elem_id e = i) doc"

definition loadGoogleFont :: "string \<Rightarrow> fontEnv \<Rightarrow> fontEnv" where
  "loadGoogleFont fontName s =
     (if fontName = [] \<or> \<not> has_window s then s
      else if fontName \<in> loadedFonts s then s
      else
        (let link = googleFontLink fontName;
             s1 = (if getElementById (elem_id link) (document s) = None
                   then s\<lparr>document := document s @ [link]\<rparr> else s)
         in s1\<lparr>loadedFonts := insert fontName (loadedFonts s)\<rparr>))"

section \<open>Concrete inputs\<close>

text \<open>A clock, entities and worlds on which the theorems below are instantiated.\<close>

definition clk0 :: clock where
  "clk0 k = (if k = 0 then ''2024-01-01T00:00:00.000Z'' else ''2024-01-01T00:00:00.001Z'')"

definition mkPersona :: "string \<Rightarrow> bool \<Rightarrow> persona" where
  "mkPersona i d = \<lparr>id_of = i, name = i, description = '''', avatar = None, isDefault = d,
     createdAt = ''2023-01-01T00:00:00.000Z'', updatedAt = ''2023-01-01T00:00:00.000Z''\<rparr>"

definition mkWorld :: "'e list \<Rightarrow> personalSettings list \<Rightarrow> 'e world" where
  "mkWorld ps ss = \<lparr>personal_file = ps, personal_settings_file = ss, clock_reads = 0\<rparr>"

definition settingsOf :: "string option \<Rightarrow> (string \<times> string) list \<Rightarrow> personalSettings" where
  "settingsOf d m = \<lparr>defaultPersonalId = d, characterPersonalMap = map_of m\<rparr>"

definition fontEnv0 :: fontEnv where
  "fontEnv0 = \<lparr>loadedFonts = {}, document = [], has_window = True\<rparr>"

definition world_ab :: "persona world" where
  "world_ab = mkWorld [mkPersona ''a'' True, mkPersona ''b'' False] []"

definition world_empty :: "personal world" where
  "world_empty = mkWorld [] []"

definition world_abc :: "persona world" where
  "world_abc = mkWorld [mkPersona ''a'' True, mkPersona ''b'' False, mkPersona ''c'' True]
     [settingsOf (Some ''a'') []]"



definition world_dangling :: "persona world" where
  "world_dangling = mkWorld [mkPersona ''a'' True]
     [settingsOf (Some ''a'') [(''c1'', ''gone''), (''c2'', '''')]]"




section \<open>Reading the default entity\<close>

text \<open>
  C7. \<^verbatim>\<open>getDefaultPersonal\<close> (resp. \<^verbatim>\<open>getDefaultPersona\<close>): on a non-empty
  collection in which no entity is flagged default it returns the first element; on an
  empty collection it returns null; when some entity is flagged it returns the first
  flagged one.
\<close>

theorem getDefaultPersonal_fallback:
  fixes w :: "('a persona_scheme) world"
  shows "(personal_file w \<noteq> [] \<and> (\<forall>p\<in>set (personal_file w). \<not> isDefault p)
            \<longrightarrow> getDefaultPersonal w = Some (hd (personal_file w)))
       \<and> (personal_file w = [] \<longrightarrow> getDefaultPersonal w = None)
       \<and> ((\<exists>p\<in>set (personal_file w). isDefault p)
            \<longrightarrow> (\<exists>k<length (personal_file w). isDefault (personal_file w ! k)
                   \<and> (\<forall>j<k. \<not> isDefault (personal_file w ! j))
                   \<and> getDefaultPersonal w = Some (personal_file w ! k)))"
proof (intro conjI impI)
  assume a: "personal_file w \<noteq> [] \<and> (\<forall>p\<in>set (personal_file w). \<not> isDefault p)"
  then have "find isDefault (personal_file w) = None"
    by (simp add: find_None_iff)
  with a show "getDefaultPersonal w = Some (hd (personal_file w))"
    by (cases "personal_file w") (simp_all add: getDefaultPersonal_def getAllPersonals_def)
next
  assume "personal_file w = []"
  then show "getDefaultPersonal w = None"
    by (simp add: getDefaultPersonal_def getAllPersonals_def)
next
  assume "\<exists>p\<in>set (personal_file w). isDefault p"
  then obtain p where p: "find isDefault (personal_file w) = Some p"
    by (cases "find isDefault (personal_file w)") (auto simp: find_None_iff)
  then have "getDefaultPersonal w = Some p"
    by (simp add: getDefaultPersonal_def getAllPersonals_def)
  with p show "\<exists>k<length (personal_file w). isDefault (personal_file w ! k)
                   \<and> (\<forall>j<k. \<not> isDefault (personal_file w ! j))
                   \<and> getDefaultPersonal w = Some (personal_file w ! k)"
    by (auto simp: find_Some_iff)
qed

theorem getDefaultPersonal_fallback_witness:
  "getDefaultPersonal (mkWorld [mkPersona ''a'' False, mkPersona ''b'' False] [])
     = Some (mkPersona ''a'' False)
   \<and> getDefaultPersonal (mkWorld ([] :: persona list) []) = None
   \<and> getDefaultPersonal (mkWorld [mkPersona ''a'' False, mkPersona ''b'' True, mkPersona ''c'' True] [])
     = Some (mkPersona ''b'' True)"
  using getDefaultPersonal_fallback [of "mkWorld [mkPersona ''a'' False, mkPersona ''b'' False] []"]
    getDefaultPersonal_fallback [of "mkWorld ([] :: persona list) []"]
    getDefaultPersonal_fallback
      [of "mkWorld [mkPersona ''a'' False, mkPersona ''b'' True, mkPersona ''c'' True] []"]
  by (simp add: mkWorld_def mkPersona_def getDefaultPersonal_def getAllPersonals_def)

section \<open>Per-character overrides\<close>

lemma getPersonalByIdValue_string: "getPersonalByIdValue (StringValue i) w = getPersonalById i w"
  by (simp add: getPersonalByIdValue_def getPersonalById_def)

lemma getPersonalByIdValue_inherited: "getPersonalByIdValue PrototypeMember w = None"
  by (simp add: getPersonalByIdValue_def find_None_iff)

lemma getPersonalForCharacter_cases:
  "getPersonalForCharacter c w =
     (case characterPersonalMap (getPersonalSettings w) c of
        Some i \<Rightarrow> if i = [] then getDefaultPersonal w else getPersonalById i w
      | None \<Rightarrow> if c \<in> set objectPrototypeKeys then None else getDefaultPersonal w)"
  by (simp add: getPersonalForCharacter_def getProperty_def Let_def
      getPersonalByIdValue_string getPersonalByIdValue_inherited split: option.splits)






section \<open>Choosing the default\<close>

lemma length_markDefault: "length (markDefault clk i t ps) = length ps"
  by (induction ps arbitrary: t) simp_all

lemma nth_markDefault:
  "j < length ps \<Longrightarrow>
     markDefault clk i t ps ! j = (ps ! j)\<lparr>isDefault := (id_of (ps ! j) = i), updatedAt := clk (t + j)\<rparr>"
proof (induction ps arbitrary: t j)
  case Nil
  then show ?case by simp
next
  case (Cons p ps)
  then show ?case by (cases j) simp_all
qed

text \<open>
  C10. When no entity of the collection has id \<open>i\<close>, \<^verbatim>\<open>setDefaultPersonal(i)\<close>
  (resp. \<^verbatim>\<open>setDefaultPersona\<close>) leaves no entity flagged default, stores \<open>i\<close> as
  the default id of the settings, and gives every entity of the collection a new
  \<^verbatim>\<open>updatedAt\<close>, each from its own reading of the clock.
\<close>

theorem setDefaultPersonal_unknown_id:
  fixes w :: "('a persona_scheme) world"
  assumes "\<forall>p\<in>set (personal_file w). id_of p \<noteq> i"
  shows "(\<forall>p\<in>set (personal_file (setDefaultPersonal clk i w)). \<not> isDefault p)
       \<and> defaultPersonalId (getPersonalSettings (setDefaultPersonal clk i w)) = Some i
       \<and> length (personal_file (setDefaultPersonal clk i w)) = length (personal_file w)
       \<and> (\<forall>j<length (personal_file w).
            updatedAt (personal_file (setDefaultPersonal clk i w) ! j) = clk (clock_reads w + j))"
proof -
  have pf: "personal_file (setDefaultPersonal clk i w)
              = markDefault clk i (clock_reads w) (personal_file w)"
    by (simp add: setDefaultPersonal_def savePersonalSettings_def getAllPersonals_def Let_def)
  have "\<not> isDefault p" if "p \<in> set (markDefault clk i (clock_reads w) (personal_file w))" for p
  proof -
    from that obtain j where j: "j < length (personal_file w)"
      and p: "p = markDefault clk i (clock_reads w) (personal_file w) ! j"
      by (auto simp: in_set_conv_nth length_markDefault)
    from j assms have "id_of (personal_file w ! j) \<noteq> i" by simp
    with j p show ?thesis by (simp add: nth_markDefault)
  qed
  moreover have "defaultPersonalId (getPersonalSettings (setDefaultPersonal clk i w)) = Some i"
    by (simp add: setDefaultPersonal_def savePersonalSettings_def getPersonalSettings_def Let_def)
  ultimately show ?thesis
    by (simp add: pf length_markDefault nth_markDefault)
qed

theorem setDefaultPersonal_unknown_id_witness:
  "''zz'' \<notin> set (map id_of (personal_file
        (mkWorld [mkPersona ''a'' True, mkPersona ''b'' False] [settingsOf (Some ''a'') []])))
   \<and> map isDefault (personal_file (setDefaultPersonal clk0 ''zz''
        (mkWorld [mkPersona ''a'' True, mkPersona ''b'' False] [settingsOf (Some ''a'') []])))
      = [False, False]
   \<and> map updatedAt (personal_file (setDefaultPersonal clk0 ''zz''
        (mkWorld [mkPersona ''a'' True, mkPersona ''b'' False] [settingsOf (Some ''a'') []])))
      = [clk0 0, clk0 1]
   \<and> defaultPersonalId (getPersonalSettings (setDefaultPersonal clk0 ''zz''
        (mkWorld [mkPersona ''a'' True, mkPersona ''b'' False] [settingsOf (Some ''a'') []])))
      = Some ''zz''"
  using setDefaultPersonal_unknown_id
    [of "mkWorld [mkPersona ''a'' True, mkPersona ''b'' False] [settingsOf (Some ''a'') []]" "''zz''" clk0]
  by (simp add: mkWorld_def mkPersona_def settingsOf_def setDefaultPersonal_def
      savePersonalSettings_def getPersonalSettings_def getAllPersonals_def)

section \<open>Loading a font\<close>

lemma loadGoogleFont_twice: "loadGoogleFont f (loadGoogleFont f s) = loadGoogleFont f s"
  by (simp add: loadGoogleFont_def Let_def)

lemma loadGoogleFont_funpow: "(loadGoogleFont f ^^ Suc n) s = loadGoogleFont f s"
  by (induction n) (simp_all add: loadGoogleFont_twice)

text \<open>
  C9. \<^verbatim>\<open>loadGoogleFont\<close> is idempotent per family: a second call on the same name
  changes neither the set of loaded fonts nor the document, any number of calls leaves
  the state of the first, and over all of them at most one link element, the one of
  that family, is appended to the document.
\<close>

theorem loadGoogleFont_idempotent:
  "loadGoogleFont f (loadGoogleFont f s) = loadGoogleFont f s
   \<and> (loadGoogleFont f ^^ Suc n) s = loadGoogleFont f s
   \<and> (document ((loadGoogleFont f ^^ Suc n) s) = document s
      \<or> document ((loadGoogleFont f ^^ Suc n) s) = document s @ [googleFontLink f])"
proof -
  have "document (loadGoogleFont f s) = document s
      \<or> document (loadGoogleFont f s) = document s @ [googleFontLink f]"
    by (simp add: loadGoogleFont_def Let_def)
  then show ?thesis
    by (simp only: loadGoogleFont_twice loadGoogleFont_funpow simp_thms)
qed

theorem loadGoogleFont_idempotent_witness:
  "document (loadGoogleFont ''EB  Garamond'' fontEnv0)
     = [\<lparr>elem_id = ''google-font-EB+Garamond'',
         href = ''https://fonts.googleapis.com/css2?family=EB+Garamond:wght@400;500;600;700&display=swap'',
         rel = ''stylesheet''\<rparr>]
   \<and> loadGoogleFont ''EB  Garamond'' (loadGoogleFont ''EB  Garamond'' fontEnv0)
     = loadGoogleFont ''EB  Garamond'' fontEnv0"
  using loadGoogleFont_idempotent [where f = "''EB  Garamond''" and s = fontEnv0 and n = 0]
  by (simp add: loadGoogleFont_def fontEnv0_def googleFontLink_def getElementById_def isSpace_def)

section \<open>Saving an entity\<close>

lemma findIndex_neg_iff: "findIndex P xs < 0 \<longleftrightarrow> (\<forall>x\<in>set xs. \<not> P x)"
  by (induction xs) (auto simp: Let_def)

lemma findIndex_first:
  "(\<forall>q\<in>set pre. \<not> P q) \<Longrightarrow> P p \<Longrightarrow> findIndex P (pre @ p # post) = int (length pre)"
  by (induction pre) (auto simp: Let_def)

lemma savePersonal_fst: "fst (savePersonal clk e w) = e\<lparr>updatedAt := clk (clock_reads w)\<rparr>"
  by (simp add: savePersonal_def Let_def)

lemma savePersonal_file_found:
  assumes "ps = pre @ p # post" "id_of p = id_of e" "\<forall>q\<in>set pre. id_of q \<noteq> id_of e"
    and "personal_file w = ps"
  shows "personal_file (snd (savePersonal clk e w)) =
     (let stored = e\<lparr>updatedAt := clk (clock_reads w)\<rparr>;
          ps1 = pre @ stored # post
      in if isDefault e
         then map (\<lambda>p. if id_of p \<noteq> id_of e then p\<lparr>isDefault := False\<rparr> else p) ps1
         else ps1)"
proof -
  have "findIndex (\<lambda>p. id_of p = id_of e) ps = int (length pre)"
    using assms(1-3) by (simp add: findIndex_first)
  then show ?thesis
    using assms by (simp add: savePersonal_def Let_def getAllPersonals_def)
qed

lemma savePersonal_file_new:
  assumes "\<forall>q\<in>set (personal_file w). id_of q \<noteq> id_of e"
  shows "personal_file (snd (savePersonal clk e w)) =
     (let stored = e\<lparr>updatedAt := clk (clock_reads w)\<rparr>;
          ps1 = personal_file w @ [stored]
      in if isDefault e
         then map (\<lambda>p. if id_of p \<noteq> id_of e then p\<lparr>isDefault := False\<rparr> else p) ps1
         else ps1)"
proof -
  have "findIndex (\<lambda>p. id_of p = id_of e) (personal_file w) < 0"
    using assms by (simp add: findIndex_neg_iff)
  then show ?thesis
    by (simp add: savePersonal_def Let_def getAllPersonals_def)
qed

text \<open>
  C8. \<^verbatim>\<open>savePersonal(e)\<close> (resp. \<^verbatim>\<open>savePersona(e)\<close>) is an upsert by id with a
  new time stamp: when an entity with the id of \<open>e\<close> exists, the first such is replaced
  at its position and the length is unchanged; otherwise \<open>e\<close> is appended and the
  length grows by one; in both cases what is stored (and what the caller's object has
  become) is \<open>e\<close> with \<^verbatim>\<open>updatedAt\<close> set to the reading of the clock; and when \<open>e\<close> is
  flagged default, no entity with another id is flagged after the call. Every other
  entity stays in its place and is what it was, but for the flag cleared on the ones
  with another id when \<open>e\<close> is flagged; the settings are not touched and the clock has
  been read once.
\<close>

theorem savePersonal_upsert:
  fixes e :: "'a persona_scheme"
  shows
    "((\<exists>p\<in>set (personal_file w). id_of p = id_of e) \<longrightarrow>
        length (personal_file (snd (savePersonal clk e w))) = length (personal_file w)
        \<and> (\<exists>k<length (personal_file w).
              id_of (personal_file w ! k) = id_of e
              \<and> (\<forall>j<k. id_of (personal_file w ! j) \<noteq> id_of e)
              \<and> personal_file (snd (savePersonal clk e w)) ! k
                  = e\<lparr>updatedAt := clk (clock_reads w)\<rparr>
              \<and> (\<forall>j<length (personal_file w). j \<noteq> k \<longrightarrow>
                    personal_file (snd (savePersonal clk e w)) ! j
                      = (if isDefault e \<and> id_of (personal_file w ! j) \<noteq> id_of e
                         then (personal_file w ! j)\<lparr>isDefault := False\<rparr>
                         else personal_file w ! j))))
   \<and> ((\<forall>p\<in>set (personal_file w). id_of p \<noteq> id_of e) \<longrightarrow>
        length (personal_file (snd (savePersonal clk e w))) = Suc (length (personal_file w))
        \<and> last (personal_file (snd (savePersonal clk e w)))
            = e\<lparr>updatedAt := clk (clock_reads w)\<rparr>
        \<and> (\<forall>j<length (personal_file w).
              personal_file (snd (savePersonal clk e w)) ! j
                = (if isDefault e then (personal_file w ! j)\<lparr>isDefault := False\<rparr>
                   else personal_file w ! j)))
   \<and> fst (savePersonal clk e w) = e\<lparr>updatedAt := clk (clock_reads w)\<rparr>
   \<and> (isDefault e \<longrightarrow>
        (\<forall>p\<in>set (personal_file (snd (savePersonal clk e w))).
           id_of p \<noteq> id_of e \<longrightarrow> \<not> isDefault p))
   \<and> personal_settings_file (snd (savePersonal clk e w)) = personal_settings_file w
   \<and> clock_reads (snd (savePersonal clk e w)) = Suc (clock_reads w)"
proof (intro conjI impI)
  assume "\<exists>p\<in>set (personal_file w). id_of p = id_of e"
  then obtain pre p post where sp: "personal_file w = pre @ p # post" "id_of p = id_of e"
    "\<forall>q\<in>set pre. id_of q \<noteq> id_of e"
    using split_list_first_prop [of "personal_file w" "\<lambda>q. id_of q = id_of e"] by blast
  note f = savePersonal_file_found [OF sp(1) sp(2) sp(3) refl, of clk]
  show "length (personal_file (snd (savePersonal clk e w))) = length (personal_file w)"
    by (simp add: f sp(1) Let_def)
  have "length pre < length (personal_file w)" by (simp add: sp(1))
  moreover have "id_of (personal_file w ! length pre) = id_of e" by (simp add: sp)
  moreover have "\<forall>j<length pre. id_of (personal_file w ! j) \<noteq> id_of e"
    using sp(3) by (simp add: sp(1) nth_append)
  moreover have "personal_file (snd (savePersonal clk e w)) ! length pre
                  = e\<lparr>updatedAt := clk (clock_reads w)\<rparr>"
    by (simp add: f Let_def nth_append)
  moreover have "personal_file (snd (savePersonal clk e w)) ! j
                  = (if isDefault e \<and> id_of (personal_file w ! j) \<noteq> id_of e
                     then (personal_file w ! j)\<lparr>isDefault := False\<rparr>
                     else personal_file w ! j)"
    if j: "j < length (personal_file w)" "j \<noteq> length pre" for j
  proof -
    let ?stored = "e\<lparr>updatedAt := clk (clock_reads w)\<rparr>"
    have same: "(pre @ ?stored # post) ! j = (pre @ p # post) ! j"
      using j(2) by (simp add: nth_append nth_Cons')
    have len: "j < length (pre @ ?stored # post)"
      using j(1) by (simp add: sp(1))
    show ?thesis
    proof (cases "isDefault e")
      case True
      let ?clear = "\<lambda>p::'a persona_scheme. if id_of p \<noteq> id_of e then p\<lparr>isDefault := False\<rparr> else p"
      have "personal_file (snd (savePersonal clk e w)) = map ?clear (pre @ ?stored # post)"
        using True by (simp only: f Let_def if_True)
      then have "personal_file (snd (savePersonal clk e w)) ! j = ?clear ((pre @ p # post) ! j)"
        using len by (simp only: nth_map same)
      then show ?thesis
        using True by (simp only: sp(1) simp_thms)
    next
      case False
      have "personal_file (snd (savePersonal clk e w)) = pre @ ?stored # post"
        using False by (simp only: f Let_def if_False)
      then show ?thesis
        using False by (simp only: same sp(1) simp_thms if_False)
    qed
  qed
  ultimately show "\<exists>k<length (personal_file w).
              id_of (personal_file w ! k) = id_of e
              \<and> (\<forall>j<k. id_of (personal_file w ! j) \<noteq> id_of e)
              \<and> personal_file (snd (savePersonal clk e w)) ! k
                  = e\<lparr>updatedAt := clk (clock_reads w)\<rparr>
              \<and> (\<forall>j<length (personal_file w). j \<noteq> k \<longrightarrow>
                    personal_file (snd (savePersonal clk e w)) ! j
                      = (if isDefault e \<and> id_of (personal_file w ! j) \<noteq> id_of e
                         then (personal_file w ! j)\<lparr>isDefault := False\<rparr>
                         else personal_file w ! j))"
    by blast
next
  assume a: "\<forall>p\<in>set (personal_file w). id_of p \<noteq> id_of e"
  note f = savePersonal_file_new [OF a, of clk]
  show "length (personal_file (snd (savePersonal clk e w))) = Suc (length (personal_file w))"
    by (simp add: f Let_def)
  show "last (personal_file (snd (savePersonal clk e w))) = e\<lparr>updatedAt := clk (clock_reads w)\<rparr>"
    by (simp add: f Let_def)
  show "\<forall>j<length (personal_file w).
              personal_file (snd (savePersonal clk e w)) ! j
                = (if isDefault e then (personal_file w ! j)\<lparr>isDefault := False\<rparr>
                   else personal_file w ! j)"
    using a by (simp add: f Let_def nth_append)
next
  show "fst (savePersonal clk e w) = e\<lparr>updatedAt := clk (clock_reads w)\<rparr>"
    by (rule savePersonal_fst)
next
  assume "isDefault e"
  then show "\<forall>p\<in>set (personal_file (snd (savePersonal clk e w))).
           id_of p \<noteq> id_of e \<longrightarrow> \<not> isDefault p"
    by (auto simp: savePersonal_def Let_def)
next
  show "personal_settings_file (snd (savePersonal clk e w)) = personal_settings_file w"
    by (simp add: savePersonal_def Let_def)
next
  show "clock_reads (snd (savePersonal clk e w)) = Suc (clock_reads w)"
    by (simp add: savePersonal_def Let_def)
qed

theorem savePersonal_upsert_witness:
  "''b'' \<in> set (map id_of (personal_file world_abc))
   \<and> personal_file (snd (savePersonal clk0 ((mkPersona ''b'' True)\<lparr>name := ''Bea''\<rparr>) world_abc))
       = [mkPersona ''a'' False,
          (mkPersona ''b'' True)\<lparr>name := ''Bea'', updatedAt := clk0 0\<rparr>,
          mkPersona ''c'' False]
   \<and> personal_file (snd (savePersonal clk0 ((mkPersona ''b'' False)\<lparr>name := ''Bea''\<rparr>) world_abc))
       = [mkPersona ''a'' True,
          (mkPersona ''b'' False)\<lparr>name := ''Bea'', updatedAt := clk0 0\<rparr>,
          mkPersona ''c'' True]
   \<and> ''d'' \<notin> set (map id_of (personal_file world_abc))
   \<and> personal_file (snd (savePersonal clk0 (mkPersona ''d'' False) world_abc))
       = [mkPersona ''a'' True, mkPersona ''b'' False, mkPersona ''c'' True,
          (mkPersona ''d'' False)\<lparr>updatedAt := clk0 0\<rparr>]"
  using savePersonal_upsert [of world_abc "(mkPersona ''b'' True)\<lparr>name := ''Bea''\<rparr>" clk0]
    savePersonal_upsert [of world_abc "(mkPersona ''b'' False)\<lparr>name := ''Bea''\<rparr>" clk0]
    savePersonal_upsert [of world_abc "mkPersona ''d'' False" clk0]
  by (simp (no_asm) add: world_abc_def mkWorld_def mkPersona_def savePersonal_def getAllPersonals_def Let_def)

subsection \<open>How many entities are flagged default after a save\<close>

text \<open>
  C1 as the specification states it: after any save, a non-empty collection has
  exactly one entity flagged default. Saving an unflagged entity into an empty
  collection, which is what \<^verbatim>\<open>createNewPersonal\<close> does first, leaves a collection of
  one entity and no default.
\<close>

theorem savePersonal_no_default_counterexample:
  "personal_file (snd (savePersonal clk0 (createEmptyPersonal (clk0 0) ''1700000000000'' ''k3x9q2a'') world_empty))
     \<noteq> []
   \<and> filter isDefault
        (personal_file (snd (savePersonal clk0 (createEmptyPersonal (clk0 0) ''1700000000000'' ''k3x9q2a'') world_empty)))
     = []
   \<and> length (personal_file (snd (createNewPersonal clk0 ''1700000000000'' ''k3x9q2a'' ''Ann'' world_empty))) = 1
   \<and> length (filter isDefault
        (personal_file (snd (createNewPersonal clk0 ''1700000000000'' ''k3x9q2a'' ''Ann'' world_empty)))) = 0"
  by (simp add: world_empty_def mkWorld_def createNewPersonal_def createEmptyPersonal_def
      savePersonal_def getAllPersonals_def Let_def)

lemma filter_isDefault_cleared:
  "\<forall>q\<in>set xs. id_of q \<noteq> i \<Longrightarrow>
     filter isDefault (map (\<lambda>p. if id_of p \<noteq> i then p\<lparr>isDefault := False\<rparr> else p) xs) = []"
  by (induction xs) simp_all

lemma filter_isDefault_other_ids:
  "\<forall>q\<in>set xs. id_of q \<noteq> i \<Longrightarrow>
     filter (\<lambda>p. isDefault p \<and> id_of p \<noteq> i) xs = filter isDefault xs"
  by (induction xs) simp_all

text \<open>
  C1, amended. On a collection whose ids are pairwise distinct: after saving an entity
  flagged default, exactly one entity is flagged, the saved one; after saving an entity
  that is not flagged, the flagged entities are exactly the ones flagged before whose
  id is not the saved one, unchanged and in their order. So after such a save exactly
  one entity is flagged if and only if exactly one entity with another id was flagged
  before, and a non-empty collection can be left without a default, which
  \<^verbatim>\<open>getDefaultPersonal\<close> answers with the first element.
\<close>

theorem savePersonal_default_count:
  fixes e :: "'a persona_scheme"
  assumes "distinct (map id_of (personal_file w))"
  shows "(isDefault e \<longrightarrow>
            filter isDefault (personal_file (snd (savePersonal clk e w)))
              = [e\<lparr>updatedAt := clk (clock_reads w)\<rparr>])
       \<and> (\<not> isDefault e \<longrightarrow>
            filter isDefault (personal_file (snd (savePersonal clk e w)))
              = filter (\<lambda>p. isDefault p \<and> id_of p \<noteq> id_of e) (personal_file w))"
proof (cases "\<exists>p\<in>set (personal_file w). id_of p = id_of e")
  case True
  then obtain pre p post where sp: "personal_file w = pre @ p # post" "id_of p = id_of e"
    "\<forall>q\<in>set pre. id_of q \<noteq> id_of e"
    using split_list_first_prop [of "personal_file w" "\<lambda>q. id_of q = id_of e"] by blast
  note f = savePersonal_file_found [OF sp(1) sp(2) sp(3) refl, of clk]
  have "id_of p \<notin> set (map id_of post)"
    using assms by (simp add: sp(1))
  then have post: "\<forall>q\<in>set post. id_of q \<noteq> id_of e"
    by (metis sp(2) imageI list.set_map)
  show ?thesis
  proof (cases "isDefault e")
    case True
    then show ?thesis
      using sp(3) post by (simp add: f Let_def filter_isDefault_cleared)
  next
    case False
    then show ?thesis
      using sp(3) post
      by (simp add: f Let_def sp(1) sp(2) filter_isDefault_other_ids)
  qed
next
  case False
  then have a: "\<forall>q\<in>set (personal_file w). id_of q \<noteq> id_of e" by simp
  show ?thesis
  proof (cases "isDefault e")
    case True
    then show ?thesis
      using a by (simp add: savePersonal_file_new [OF a] Let_def filter_isDefault_cleared)
  next
    case False
    then show ?thesis
      using a by (simp add: savePersonal_file_new [OF a] Let_def filter_isDefault_other_ids)
  qed
qed

theorem savePersonal_default_count_witness:
  "distinct (map id_of (personal_file world_ab))
   \<and> filter isDefault (personal_file (snd (savePersonal clk0 (mkPersona ''b'' True) world_ab)))
       = [(mkPersona ''b'' True)\<lparr>updatedAt := clk0 0\<rparr>]
   \<and> filter isDefault (personal_file (snd (savePersonal clk0 (mkPersona ''a'' False) world_ab)))
       = []
   \<and> filter isDefault (personal_file (snd (savePersonal clk0 (mkPersona ''b'' False) world_ab)))
       = [mkPersona ''a'' True]
   \<and> filter isDefault (personal_file (snd (savePersonal clk0 (mkPersona ''c'' False) world_ab)))
       = [mkPersona ''a'' True]"
  using savePersonal_default_count [of world_ab "mkPersona ''b'' True" clk0]
    savePersonal_default_count [of world_ab "mkPersona ''a'' False" clk0]
    savePersonal_default_count [of world_ab "mkPersona ''b'' False" clk0]
    savePersonal_default_count [of world_ab "mkPersona ''c'' False" clk0]
  by (simp (no_asm) add: world_ab_def mkWorld_def mkPersona_def savePersonal_def getAllPersonals_def Let_def)

section \<open>Deleting an entity\<close>




subsection \<open>The collection after a delete\<close>




subsection \<open>The settings after a delete\<close>




section \<open>Resolving the entity of a character\<close>




text \<open>
  C5 as stated: an entry whose id no entity carries gives null, never the default. For
  the empty string as the entry the lookup is skipped and the default is returned.
\<close>

theorem getPersonalForCharacter_blank_dangling_counterexample:
  "characterPersonalMap (getPersonalSettings world_dangling) ''c2'' = Some ''''
   \<and> '''' \<notin> set (map id_of (personal_file world_dangling))
   \<and> getPersonalForCharacter ''c2'' world_dangling = Some (mkPersona ''a'' True)
   \<and> getPersonalForCharacter ''c2'' world_dangling = getDefaultPersonal world_dangling"
  by (simp add: world_dangling_def mkWorld_def mkPersona_def settingsOf_def
      getPersonalForCharacter_cases getPersonalSettings_def getPersonalById_def
      getDefaultPersonal_def getAllPersonals_def Let_def)

text \<open>
  C5, amended. When the map gives the character a non-empty id that no entity of the
  collection carries, \<^verbatim>\<open>getPersonalForCharacter\<close> (resp. \<^verbatim>\<open>getPersonaForCharacter\<close>)
  returns null and does not fall back to the default entity.
\<close>

theorem getPersonalForCharacter_dangling:
  fixes w :: "('a persona_scheme) world"
  assumes "characterPersonalMap (getPersonalSettings w) c = Some i"
    and "i \<noteq> []"
    and "\<forall>p\<in>set (personal_file w). id_of p \<noteq> i"
  shows "getPersonalForCharacter c w = None"
  using assms
  by (simp add: getPersonalForCharacter_cases getPersonalById_def getAllPersonals_def
      find_None_iff)

theorem getPersonalForCharacter_dangling_witness:
  "characterPersonalMap (getPersonalSettings world_dangling) ''c1'' = Some ''gone''
   \<and> ''gone'' \<notin> set (map id_of (personal_file world_dangling))
   \<and> getPersonalForCharacter ''c1'' world_dangling = None
   \<and> getDefaultPersonal world_dangling = Some (mkPersona ''a'' True)"
  using getPersonalForCharacter_dangling [of world_dangling "''c1''" "''gone''"]
  by (simp (no_asm) add: world_dangling_def mkWorld_def mkPersona_def settingsOf_def
      getPersonalForCharacter_cases getPersonalSettings_def getPersonalById_def
      getDefaultPersonal_def getAllPersonals_def Let_def)

end
